theory Spec2Isabelle
  imports Complex_Main
begin

section \<open>Numbers, constants and data\<close>

text \<open>
  JavaScript numbers are modelled as mathematical reals: \<open>Math.PI\<close> is \<^term>\<open>pi\<close>,
  \<open>Math.abs\<close> is \<^term>\<open>abs\<close>, \<open>Math.max\<close> and \<open>Math.min\<close> are \<^term>\<open>max\<close> and
  \<^term>\<open>min\<close>, \<open>Math.round\<close> (round half up) is \<^term>\<open>round\<close>, that is
  \<open>\<lfloor>x + 1/2\<rfloor>\<close>, and \<open>Math.ceil\<close> is \<^term>\<open>ceiling\<close>. Rounding error, infinities and
  NaN are outside the model.
\<close>

subsection \<open>\<open>src/lib/physics/constants.ts\<close>\<close>

definition FREE_SPACE_IMPEDANCE :: real where
  "FREE_SPACE_IMPEDANCE = 376.730313668"

definition SPEED_OF_LIGHT :: real where
  "SPEED_OF_LIGHT = 299792458"

definition DIPOLE_BASE_RESISTANCE :: real where
  "DIPOLE_BASE_RESISTANCE = 73.1"

definition HIGH_IMPEDANCE_LIMIT :: real where
  "HIGH_IMPEDANCE_LIMIT = 15000"

definition CURRENT_NULL_RESISTANCE :: real where
  "CURRENT_NULL_RESISTANCE = 2000"

definition HALF_WAVE_END_FED_RESISTANCE :: real where
  "HALF_WAVE_END_FED_RESISTANCE = 2500"

definition END_FED_HIGH_IMPEDANCE :: real where
  "END_FED_HIGH_IMPEDANCE = 5000"

definition RESONANCE_REACTANCE_THRESHOLD :: real where
  "RESONANCE_REACTANCE_THRESHOLD = 15"

definition RESONANCE_PERCENTAGE_THRESHOLD :: real where
  "RESONANCE_PERCENTAGE_THRESHOLD = 0.2"

definition MIN_RESISTANCE :: real where
  "MIN_RESISTANCE = 0.1"

definition MAX_RESISTANCE :: real where
  "MAX_RESISTANCE = 50000"

definition MIN_REACTANCE :: real where
  "MIN_REACTANCE = - 5000"

definition MAX_REACTANCE :: real where
  "MAX_REACTANCE = 5000"

definition MAX_HARMONICS :: nat where
  "MAX_HARMONICS = 8"

definition EDGE_BUFFER :: real where
  "EDGE_BUFFER = 0.1"

subsection \<open>The antenna model as the calculators read it\<close>

record Impedance =
  resistance :: real
  reactance :: real

text \<open>
  The calculators receive a model object and read its \<open>length\<close>, \<open>feedPosition\<close>,
  \<open>waveNumber\<close>, \<open>electricalLength\<close> and \<open>wavelength\<close> properties and the value of
  its \<open>calculateImpedance()\<close> method. The record holds exactly these values;
  \<open>length_m\<close> is the property \<open>length\<close> (metres) and \<open>impedance\<close> is what
  \<open>calculateImpedance()\<close> returns.
\<close>

record AntennaModel =
  length_m :: real
  feedPosition :: real
  waveNumber :: real
  electricalLength :: real
  wavelength :: real
  impedance :: Impedance

record NodePair =
  nodes :: "real list"
  antinodes :: "real list"

record NodesResult =
  current :: NodePair
  voltage :: NodePair
  harmonic :: int
  isResonant :: bool

section \<open>Array building blocks\<close>

text \<open>
  \<open>for (let n = lo; n < hi; n++) body\<close>, threading the array under construction.
\<close>

function for_loop :: "nat \<Rightarrow> nat \<Rightarrow> (nat \<Rightarrow> 'a \<Rightarrow> 'a) \<Rightarrow> 'a \<Rightarrow> 'a" where
  "for_loop n hi body acc = (if n < hi then for_loop (Suc n) hi body (body n acc) else acc)"
  by pat_completeness auto
termination
  by (relation "measure (\<lambda>(n, hi, body, acc). hi - n)") auto

declare for_loop.simps [simp del]

text \<open>
  \<open>new Set(xs)\<close> adds the elements in order and ignores one that is already a member;
  spreading the set gives the elements in insertion order.
\<close>

definition set_add :: "real list \<Rightarrow> real \<Rightarrow> real list" where
  "set_add s x = (if x \<in> set s then s else s @ [x])"

definition new_Set :: "real list \<Rightarrow> real list" where
  "new_Set xs = foldl set_add [] xs"

text \<open>\<open>[...new Set(xs)].sort((a, b) => a - b)\<close>: ascending numeric order.\<close>

definition sorted_unique :: "real list \<Rightarrow> real list" where
  "sorted_unique xs = sort (new_Set xs)"

text \<open>
  The body shared by every node loop: push the position and its mirror image when
  the guard holds.
\<close>

definition push_pair :: "(real \<Rightarrow> bool) \<Rightarrow> real \<Rightarrow> real list \<Rightarrow> real list" where
  "push_pair guard p acc = (if guard p then acc @ [p, - p] else acc)"

section \<open>\<open>NodesCalculator\<close> of \<open>src/lib/physics/nodescalculator.ts\<close>\<close>

definition calculateCurrentNodes :: "real \<Rightarrow> real \<Rightarrow> real \<Rightarrow> real list" where
  "calculateCurrentNodes len k fp =
    (let halfLength = len / 2;
         nodes0 = (if fp = 0 \<or> fp = 1 then [- halfLength, halfLength]
                   else [- halfLength, halfLength]);
         nodes1 = for_loop 0 MAX_HARMONICS
                    (\<lambda>n. push_pair (\<lambda>nodePosition. nodePosition < halfLength - EDGE_BUFFER)
                            (((real n + 0.5) * pi) / k))
                    nodes0
     in sorted_unique nodes1)"

definition calculateCurrentAntinodes :: "real \<Rightarrow> real \<Rightarrow> real \<Rightarrow> real list" where
  "calculateCurrentAntinodes len k fp =
    (let halfLength = len / 2;
         antinodes0 = (if fp = 0.5 then [0]
                       else if fp = 0 \<or> fp = 1 then
                         [if fp = 0 then - halfLength else halfLength]
                       else [(fp - 0.5) * len]);
         antinodes1 = for_loop 1 MAX_HARMONICS
                    (\<lambda>n. push_pair (\<lambda>antinodePosition. antinodePosition < halfLength - EDGE_BUFFER)
                            ((real n * pi) / k))
                    antinodes0
     in sorted_unique antinodes1)"

definition calculateVoltageNodes :: "real \<Rightarrow> real \<Rightarrow> real \<Rightarrow> real list" where
  "calculateVoltageNodes len k fp =
    (let halfLength = len / 2;
         nodes0 = (if fp = 0.5 then [0] else []);
         nodes1 = for_loop 1 MAX_HARMONICS
                    (\<lambda>n. push_pair (\<lambda>nodePosition. nodePosition < halfLength - EDGE_BUFFER)
                            ((real n * pi) / k))
                    nodes0
     in sorted_unique nodes1)"

definition calculateVoltageAntinodes :: "real \<Rightarrow> real \<Rightarrow> real \<Rightarrow> real list" where
  "calculateVoltageAntinodes len k fp =
    (let halfLength = len / 2;
         antinodes0 = [- halfLength, halfLength];
         antinodes1 = for_loop 0 MAX_HARMONICS
                    (\<lambda>n. push_pair (\<lambda>antinodePosition.
                               antinodePosition < halfLength - EDGE_BUFFER
                               \<and> antinodePosition > EDGE_BUFFER)
                            (((real n + 0.5) * pi) / k))
                    antinodes0
     in sorted_unique antinodes1)"

definition getHarmonicNumber :: "real \<Rightarrow> int" where
  "getHarmonicNumber eLen =
    (let harmonicFloat = eLen * 2;
         harmonic = round harmonicFloat
     in if harmonic \<le> 0 then 1 else harmonic)"

text \<open>
  Modelled from the spec: \<open>PhysicsUtils.isResonant\<close> of \<open>./physicsutils\<close>, which
  \<open>_isResonant\<close> and \<open>getResonanceGuidance\<close> call and which is not among the sources:
  \<open>isResonant(impedance) = |reactance| < max(15, 0.2 * resistance)\<close>, with the two
  thresholds of \<open>constants.ts\<close>.
\<close>

definition PhysicsUtils_isResonant :: "Impedance \<Rightarrow> bool" where
  "PhysicsUtils_isResonant z \<longleftrightarrow>
     \<bar>reactance z\<bar> < max RESONANCE_REACTANCE_THRESHOLD
                         (RESONANCE_PERCENTAGE_THRESHOLD * resistance z)"

definition isResonant_model :: "AntennaModel \<Rightarrow> bool" where
  "isResonant_model model = (let z = impedance model in PhysicsUtils_isResonant z)"

definition calculateNodesAndAntinodes :: "AntennaModel \<Rightarrow> NodesResult" where
  "calculateNodesAndAntinodes model =
    (let len = length_m model;
         fp = feedPosition model;
         k = waveNumber model;
         eLen = electricalLength model;
         currentNodes = calculateCurrentNodes len k fp;
         currentAntinodes = calculateCurrentAntinodes len k fp;
         voltageNodes = calculateVoltageNodes len k fp;
         voltageAntinodes = calculateVoltageAntinodes len k fp;
         harmonicNumber = getHarmonicNumber eLen
     in \<lparr> current = \<lparr> nodes = currentNodes, antinodes = currentAntinodes \<rparr>,
          voltage = \<lparr> nodes = voltageNodes, antinodes = voltageAntinodes \<rparr>,
          harmonic = harmonicNumber,
          isResonant = isResonant_model model \<rparr>)"

subsection \<open>\<open>getResonanceGuidance\<close>\<close>

text \<open>
  The guidance text is a template filled with numbers printed by \<open>toFixed(1)\<close>. The
  model keeps the template and the numbers it is filled with:
  \<^item> \<open>WellMatched\<close> is \<open>'Antenna is well-matched'\<close>;
  \<^item> \<open>TooShort a t\<close> is \<open>`Too Short - Add ~${a}m wire (Target: ${t}m)`\<close>;
  \<^item> \<open>TooLong a t\<close> is \<open>`Too Long - Remove ~${a}m wire (Target: ${t}m)`\<close>;
  \<^item> \<open>NearlyResonant\<close> is \<open>'Nearly Resonant - Minor adjustment needed'\<close>.

  \<open>lengthAdjustment\<close> is \<open>None\<close> where the source returns \<open>null\<close>, and
  \<open>reactance_out\<close> is \<open>None\<close> where the returned object has no \<open>reactance\<close> property.
\<close>

datatype Guidance = WellMatched | TooShort real real | TooLong real real | NearlyResonant

record ResonanceInfo =
  status :: string
  guidance :: Guidance
  color :: string
  lengthAdjustment :: "real option"
  reactance_out :: "real option"

definition getResonanceGuidance :: "AntennaModel \<Rightarrow> ResonanceInfo" where
  "getResonanceGuidance model =
    (let z = impedance model;
         x = reactance z;
         r = resistance z;
         resonant = PhysicsUtils_isResonant z
     in if resonant then
          \<lparr> status = ''Resonant'', guidance = WellMatched, color = ''#00ff00'',
            lengthAdjustment = None, reactance_out = None \<rparr>
        else
          (let currentLength = length_m model;
               (g, adj) =
                 (if x < - 15 then
                    (let reactanceRatio = \<bar>x\<bar> / 377;
                         adj = reactanceRatio * wavelength model * 0.1;
                         targetLength = currentLength + adj
                     in (TooShort adj targetLength, adj))
                  else if x > 15 then
                    (let reactanceRatio = x / 377;
                         adj = reactanceRatio * wavelength model * 0.1;
                         targetLength = currentLength - adj
                     in (TooLong adj targetLength, adj))
                  else (NearlyResonant, 0))
           in \<lparr> status = ''Not Resonant'', guidance = g, color = ''#ff6600'',
                lengthAdjustment = Some adj, reactance_out = Some x \<rparr>))"

section \<open>\<open>NodesCalculator\<close> of \<open>src/components/antenna-visualization.tsx\<close>\<close>

definition vis_calculateCurrentNodes :: "real \<Rightarrow> real \<Rightarrow> real list" where
  "vis_calculateCurrentNodes len k =
    (let halfLength = len / 2;
         wavelength = 2 * pi / k;
         electricalLength = len / wavelength;
         nodes0 = [- halfLength, halfLength];
         maxNodes = \<lceil>electricalLength * 4\<rceil>;
         edgeBuffer = min 0.1 (wavelength * 0.05);
         nodes1 = for_loop 0 (nat maxNodes)
                    (\<lambda>n. push_pair (\<lambda>nodePosition. nodePosition < halfLength - edgeBuffer)
                            (((real n + 0.5) * pi) / k))
                    nodes0
     in sorted_unique nodes1)"

definition vis_calculateCurrentAntinodes :: "real \<Rightarrow> real \<Rightarrow> real list" where
  "vis_calculateCurrentAntinodes len k =
    (let halfLength = len / 2;
         wavelength = 2 * pi / k;
         electricalLength = len / wavelength;
         antinodes0 = [0];
         maxAntinodes = \<lceil>electricalLength * 4\<rceil>;
         edgeBuffer = min 0.1 (wavelength * 0.05);
         antinodes1 = for_loop 1 (nat maxAntinodes)
                    (\<lambda>n. push_pair (\<lambda>antinodePosition. antinodePosition < halfLength - edgeBuffer)
                            ((real n * pi) / k))
                    antinodes0
     in sorted_unique antinodes1)"

definition vis_calculateVoltageNodes :: "real \<Rightarrow> real \<Rightarrow> real list" where
  "vis_calculateVoltageNodes len k =
    (let halfLength = len / 2;
         wavelength = 2 * pi / k;
         electricalLength = len / wavelength;
         nodes0 = [0];
         maxNodes = \<lceil>electricalLength * 4\<rceil>;
         edgeBuffer = min 0.1 (wavelength * 0.05);
         nodes1 = for_loop 1 (nat maxNodes)
                    (\<lambda>n. push_pair (\<lambda>nodePosition. nodePosition < halfLength - edgeBuffer)
                            ((real n * pi) / k))
                    nodes0
     in sorted_unique nodes1)"

definition vis_calculateVoltageAntinodes :: "real \<Rightarrow> real \<Rightarrow> real list" where
  "vis_calculateVoltageAntinodes len k =
    (let halfLength = len / 2;
         wavelength = 2 * pi / k;
         electricalLength = len / wavelength;
         antinodes0 = [- halfLength, halfLength];
         maxAntinodes = \<lceil>electricalLength * 4\<rceil>;
         edgeBuffer = min 0.1 (wavelength * 0.05);
         centerBuffer = max 0.1 (wavelength * 0.05);
         antinodes1 = for_loop 0 (nat maxAntinodes)
                    (\<lambda>n. push_pair (\<lambda>antinodePosition.
                               antinodePosition < halfLength - edgeBuffer
                               \<and> antinodePosition > centerBuffer)
                            (((real n + 0.5) * pi) / k))
                    antinodes0
     in sorted_unique antinodes1)"

definition vis_getHarmonicNumber :: "real \<Rightarrow> int" where
  "vis_getHarmonicNumber eLen =
    (let harmonicFloat = eLen * 2;
         harmonic = round harmonicFloat
     in if harmonic \<le> 0 then 1 else harmonic)"

definition vis_isResonant :: "AntennaModel \<Rightarrow> bool" where
  "vis_isResonant antennaModel =
    (let z = impedance antennaModel
     in \<bar>reactance z\<bar> < max 15 (resistance z * 0.2))"

definition vis_calculateNodesAndAntinodes :: "AntennaModel \<Rightarrow> NodesResult" where
  "vis_calculateNodesAndAntinodes antennaModel =
    (let k = waveNumber antennaModel;
         len = length_m antennaModel;
         eLen = electricalLength antennaModel;
         currentNodes = vis_calculateCurrentNodes len k;
         currentAntinodes = vis_calculateCurrentAntinodes len k;
         voltageNodes = vis_calculateVoltageNodes len k;
         voltageAntinodes = vis_calculateVoltageAntinodes len k;
         harmonicNumber = vis_getHarmonicNumber eLen
     in \<lparr> current = \<lparr> nodes = currentNodes, antinodes = currentAntinodes \<rparr>,
          voltage = \<lparr> nodes = voltageNodes, antinodes = voltageAntinodes \<rparr>,
          harmonic = harmonicNumber,
          isResonant = vis_isResonant antennaModel \<rparr>)"

section \<open>The impedance calculator\<close>

text \<open>
  Modelled from the spec: the \<open>ImpedanceCalculator\<close> (section 4.1) and the \<open>clamp\<close> and
  \<open>log10\<close> helpers (section 4.3), none of which is among the sources; only the
  constants they use are, in \<open>constants.ts\<close>. The spec names three log-based wire
  corrections and the reactance at the end-fed singularity without giving their
  formulas; the model takes them as parameters, so that what is proved holds whatever
  they are.
\<close>

record Corrections =
  halfWaveCorrection :: "real \<Rightarrow> real"
  wireCorrection :: "real \<Rightarrow> real"
  quarterWaveCorrection :: "real \<Rightarrow> real"
  endFedNullReactance :: real

definition clamp :: "real \<Rightarrow> real \<Rightarrow> real \<Rightarrow> real" where
  "clamp v lo hi = max lo (min hi v)"

definition log10 :: "real \<Rightarrow> real" where
  "log10 v = log 10 v"

definition centerFed :: "Corrections \<Rightarrow> real \<Rightarrow> real \<Rightarrow> real \<Rightarrow> real \<Rightarrow> Impedance" where
  "centerFed cs len k eLen lengthToRadiusRatio =
    (if eLen < 0.1 then
       \<lparr> resistance = max (20 * pi\<^sup>2 * eLen\<^sup>2) 0.1,
         reactance = - (FREE_SPACE_IMPEDANCE / (2 * pi))
                       * (log10 (2 * lengthToRadiusRatio) - 0.577) \<rparr>
     else if \<bar>eLen - 0.5\<bar> < 0.05 then
       \<lparr> resistance = DIPOLE_BASE_RESISTANCE,
         reactance = halfWaveCorrection cs lengthToRadiusRatio \<rparr>
     else
       (let \<beta> = k * len / 2
        in if \<bar>sin \<beta>\<bar> < 0.001 then
             \<lparr> resistance = CURRENT_NULL_RESISTANCE, reactance = 0 \<rparr>
           else
             \<lparr> resistance = DIPOLE_BASE_RESISTANCE * (sin \<beta>)\<^sup>2,
               reactance = 43.1 * (cos \<beta> - cos (k * len)) / sin \<beta>
                           + wireCorrection cs lengthToRadiusRatio \<rparr>))"

definition endFed :: "Corrections \<Rightarrow> real \<Rightarrow> real \<Rightarrow> real \<Rightarrow> real \<Rightarrow> Impedance" where
  "endFed cs len k eLen lengthToRadiusRatio =
    (if \<bar>eLen - 0.25\<bar> < 0.02 then
       \<lparr> resistance = DIPOLE_BASE_RESISTANCE / 2,
         reactance = quarterWaveCorrection cs lengthToRadiusRatio \<rparr>
     else if \<bar>eLen - 0.5\<bar> < 0.02 then
       \<lparr> resistance = HALF_WAVE_END_FED_RESISTANCE, reactance = 0 \<rparr>
     else
       (let \<beta> = k * len
        in if \<bar>sin \<beta>\<bar> < 0.001 then
             \<lparr> resistance = END_FED_HIGH_IMPEDANCE, reactance = endFedNullReactance cs \<rparr>
           else
             \<lparr> resistance = min (DIPOLE_BASE_RESISTANCE / (cos \<beta>)\<^sup>2) HIGH_IMPEDANCE_LIMIT,
               reactance = clamp (FREE_SPACE_IMPEDANCE * tan (\<beta> / 2)) (- 5000) 5000 \<rparr>))"

definition offCenter :: "Corrections \<Rightarrow> real \<Rightarrow> real \<Rightarrow> real \<Rightarrow> real \<Rightarrow> real \<Rightarrow> Impedance" where
  "offCenter cs len k eLen lengthToRadiusRatio fp =
    (let c = centerFed cs len k eLen lengthToRadiusRatio;
         offset = \<bar>fp - 0.5\<bar>;
         electricalOffset = offset * k * len;
         transformFactor = (if offset < 0.1 then 1 + 2 * offset
                            else 1 / (cos electricalOffset)\<^sup>2)
     in \<lparr> resistance = resistance c * transformFactor,
          reactance = reactance c * sqrt transformFactor * cos electricalOffset \<rparr>)"

definition computeImpedance :: "Corrections \<Rightarrow> real \<Rightarrow> real \<Rightarrow> real \<Rightarrow> real \<Rightarrow> Impedance" where
  "computeImpedance cs len frequency fp wireDiameter =
    (let wl = SPEED_OF_LIGHT / (frequency * 1000000);
         eLen = len / wl;
         k = 2 * pi / wl;
         wireRadius = wireDiameter * 0.0005;
         lengthToRadiusRatio = len / wireRadius;
         raw = (if fp = 0.5 then centerFed cs len k eLen lengthToRadiusRatio
                else if fp = 0 \<or> fp = 1 then endFed cs len k eLen lengthToRadiusRatio
                else offCenter cs len k eLen lengthToRadiusRatio fp)
     in \<lparr> resistance = clamp (resistance raw) MIN_RESISTANCE MAX_RESISTANCE,
          reactance = clamp (reactance raw) MIN_REACTANCE MAX_REACTANCE \<rparr>)"

text \<open>
  The memoization cache: a map from the key of the rounded inputs (length, frequency
  and feed position to 3 decimals, wire diameter to 1 decimal) to the impedance stored
  for it. A call returns the cached impedance when the key is present, and computes
  and stores it otherwise.
\<close>

type_synonym CacheKey = "int \<times> int \<times> int \<times> int"

type_synonym Cache = "CacheKey \<rightharpoonup> Impedance"

definition cacheKey :: "real \<Rightarrow> real \<Rightarrow> real \<Rightarrow> real \<Rightarrow> CacheKey" where
  "cacheKey len frequency fp wireDiameter =
    (round (len * 1000), round (frequency * 1000), round (fp * 1000), round (wireDiameter * 10))"

definition calculateImpedance ::
  "Corrections \<Rightarrow> Cache \<Rightarrow> real \<Rightarrow> real \<Rightarrow> real \<Rightarrow> real \<Rightarrow> Impedance \<times> Cache" where
  "calculateImpedance cs cache len frequency fp wireDiameter =
    (let key = cacheKey len frequency fp wireDiameter
     in case cache key of
          Some z \<Rightarrow> (z, cache)
        | None \<Rightarrow>
            (let z = computeImpedance cs len frequency fp wireDiameter
             in (z, cache(key \<mapsto> z))))"

text \<open>The caches a session can hold: the empty one, and the one left by any call.\<close>

inductive reachable_cache :: "Corrections \<Rightarrow> Cache \<Rightarrow> bool" for cs :: Corrections where
  fresh: "reachable_cache cs Map.empty"
| call: "reachable_cache cs cache \<Longrightarrow>
         reachable_cache cs (snd (calculateImpedance cs cache len frequency fp wireDiameter))"

section \<open>Properties of the array building blocks\<close>

lemma for_loop_foldl:
  "for_loop n hi body acc = foldl (\<lambda>a i. body i a) acc [n..<hi]"
proof (induction n hi body acc rule: for_loop.induct)
  case (1 n hi body acc)
  show ?case
  proof (cases "n < hi")
    case True
    then show ?thesis
      using "1.IH" by (subst for_loop.simps) (simp add: upt_rec [of n hi])
  next
    case False
    then show ?thesis by (subst for_loop.simps) simp
  qed
qed

lemma set_foldl_push_pair:
  "set (foldl (\<lambda>a i. push_pair g (f i) a) acc ns) =
     set acc \<union> {p. \<exists>n \<in> set ns. g (f n) \<and> (p = f n \<or> p = - f n)}"
  by (induction ns arbitrary: acc) (auto simp: push_pair_def)

lemma set_for_loop_push_pair:
  "set (for_loop lo hi (\<lambda>n. push_pair g (f n)) acc) =
     set acc \<union> {p. \<exists>n. lo \<le> n \<and> n < hi \<and> g (f n) \<and> (p = f n \<or> p = - f n)}"
  unfolding for_loop_foldl set_foldl_push_pair by auto

lemma set_foldl_set_add: "set (foldl set_add s xs) = set s \<union> set xs"
  by (induction xs arbitrary: s) (auto simp: set_add_def)

lemma distinct_foldl_set_add: "distinct s \<Longrightarrow> distinct (foldl set_add s xs)"
  by (induction xs arbitrary: s) (auto simp: set_add_def)

lemma set_new_Set: "set (new_Set xs) = set xs"
  by (simp add: new_Set_def set_foldl_set_add)

lemma distinct_new_Set: "distinct (new_Set xs)"
  by (simp add: new_Set_def distinct_foldl_set_add)

lemma set_sorted_unique: "set (sorted_unique xs) = set xs"
  by (simp add: sorted_unique_def set_new_Set)

lemma strictly_sorted_unique: "sorted_wrt (<) (sorted_unique xs)"
  by (simp add: sorted_unique_def strict_sorted_iff distinct_new_Set)

lemma sorted_unique_cong: "set xs = set ys \<Longrightarrow> sorted_unique xs = sorted_unique ys"
  unfolding sorted_unique_def
  by (rule sorted_distinct_set_unique) (simp_all add: distinct_new_Set set_new_Set)

lemma sorted_unique_single: "set xs = {a} \<Longrightarrow> sorted_unique xs = [a]"
  using sorted_unique_cong [of xs "[a]"]
  by (simp add: sorted_unique_def new_Set_def set_add_def)

section \<open>Harmonic number and resonance predicate\<close>

lemma getHarmonicNumber_max: "getHarmonicNumber e = max 1 (round (2 * e))"
  by (simp add: getHarmonicNumber_def Let_def max_def mult.commute)

lemma vis_getHarmonicNumber_eq: "vis_getHarmonicNumber e = getHarmonicNumber e"
  by (simp add: getHarmonicNumber_def vis_getHarmonicNumber_def)

text \<open>
  Claim C4. For every electrical length greater than 0, the harmonic number that the
  nodes calculator returns is \<open>max(1, round(2 * electricalLength))\<close>, in the library
  class and in the class of the visualization component alike.
\<close>

theorem harmonic_is_max_one_round:
  assumes "0 < electricalLength model"
  shows "harmonic (calculateNodesAndAntinodes model) = max 1 (round (2 * electricalLength model))
       \<and> harmonic (vis_calculateNodesAndAntinodes model) = max 1 (round (2 * electricalLength model))"
  by (simp add: calculateNodesAndAntinodes_def vis_calculateNodesAndAntinodes_def Let_def
      vis_getHarmonicNumber_eq getHarmonicNumber_max)

theorem harmonic_is_max_one_round_witness:
  "harmonic (calculateNodesAndAntinodes
      \<lparr> length_m = 10.6, feedPosition = 0.5, waveNumber = 0.3, electricalLength = 0.502,
        wavelength = 21.1, impedance = \<lparr> resistance = 73.1, reactance = 2 \<rparr> \<rparr>) = 1
   \<and> harmonic (vis_calculateNodesAndAntinodes
      \<lparr> length_m = 10.6, feedPosition = 0.5, waveNumber = 0.3, electricalLength = 0.502,
        wavelength = 21.1, impedance = \<lparr> resistance = 73.1, reactance = 2 \<rparr> \<rparr>) = 1"
  using harmonic_is_max_one_round [of
      "\<lparr> length_m = 10.6, feedPosition = 0.5, waveNumber = 0.3, electricalLength = 0.502,
        wavelength = 21.1, impedance = \<lparr> resistance = 73.1, reactance = 2 \<rparr> \<rparr>"]
  by (simp add: round_def)

text \<open>
  Claim C5. The harmonic number is monotone: for electrical lengths \<open>e1 \<le> e2\<close> the
  harmonic number of \<open>e1\<close> is at most that of \<open>e2\<close>; and the harmonic number of any
  electrical length is at least 1.
\<close>

theorem harmonic_monotone:
  "(e1 \<le> e2 \<longrightarrow> getHarmonicNumber e1 \<le> getHarmonicNumber e2) \<and> 1 \<le> getHarmonicNumber e"
proof -
  have "round (2 * e1) \<le> round (2 * e2)" if "e1 \<le> e2"
    using that by (intro round_mono) simp
  then show ?thesis
    unfolding getHarmonicNumber_max by auto
qed

theorem harmonic_monotone_witness:
  "(0.3::real) \<le> 1.2 \<and> getHarmonicNumber 0.3 \<le> getHarmonicNumber 1.2 \<and> 1 \<le> getHarmonicNumber 0.3"
  using harmonic_monotone [of "0.3" "1.2" "0.3"] by simp

text \<open>
  Claim C3. For every impedance, the resonance predicate is true exactly when
  \<open>|reactance| < max(15, 0.2 * resistance)\<close>.
\<close>

theorem resonance_predicate_exact:
  "vis_isResonant model \<longleftrightarrow>
     \<bar>reactance (impedance model)\<bar> < max 15 (0.2 * resistance (impedance model))"
  by (simp add: vis_isResonant_def Let_def mult.commute)

lemma PhysicsUtils_isResonant_iff:
  "PhysicsUtils_isResonant z \<longleftrightarrow> \<bar>reactance z\<bar> < max 15 (0.2 * resistance z)"
  by (simp add: PhysicsUtils_isResonant_def RESONANCE_REACTANCE_THRESHOLD_def
      RESONANCE_PERCENTAGE_THRESHOLD_def)

section \<open>Node and antinode positions\<close>

lemma set_calculateCurrentNodes:
  "set (calculateCurrentNodes len k fp) =
     {- (len / 2), len / 2} \<union>
     {p. \<exists>n. 0 \<le> n \<and> n < MAX_HARMONICS \<and> ((real n + 0.5) * pi) / k < len / 2 - EDGE_BUFFER
            \<and> (p = ((real n + 0.5) * pi) / k \<or> p = - (((real n + 0.5) * pi) / k))}"
  by (simp add: calculateCurrentNodes_def Let_def set_sorted_unique set_for_loop_push_pair)

lemma set_calculateVoltageAntinodes:
  "set (calculateVoltageAntinodes len k fp) =
     {- (len / 2), len / 2} \<union>
     {p. \<exists>n. 0 \<le> n \<and> n < MAX_HARMONICS
            \<and> (((real n + 0.5) * pi) / k < len / 2 - EDGE_BUFFER
                \<and> ((real n + 0.5) * pi) / k > EDGE_BUFFER)
            \<and> (p = ((real n + 0.5) * pi) / k \<or> p = - (((real n + 0.5) * pi) / k))}"
  by (simp add: calculateVoltageAntinodes_def Let_def set_sorted_unique set_for_loop_push_pair)

lemma set_calculateCurrentAntinodes:
  "set (calculateCurrentAntinodes len k fp) =
     {if fp = 0.5 then 0 else if fp = 0 then - (len / 2) else if fp = 1 then len / 2
      else (fp - 0.5) * len} \<union>
     {p. \<exists>n. 1 \<le> n \<and> n < MAX_HARMONICS \<and> (real n * pi) / k < len / 2 - EDGE_BUFFER
            \<and> (p = (real n * pi) / k \<or> p = - ((real n * pi) / k))}"
  by (simp add: calculateCurrentAntinodes_def Let_def set_sorted_unique set_for_loop_push_pair)

lemma set_calculateVoltageNodes:
  "set (calculateVoltageNodes len k fp) =
     (if fp = 0.5 then {0} else {}) \<union>
     {p. \<exists>n. 1 \<le> n \<and> n < MAX_HARMONICS \<and> (real n * pi) / k < len / 2 - EDGE_BUFFER
            \<and> (p = (real n * pi) / k \<or> p = - ((real n * pi) / k))}"
  by (simp add: calculateVoltageNodes_def Let_def set_sorted_unique set_for_loop_push_pair)

text \<open>
  Claim C1. For every model with positive length and positive wave number, the current
  nodes contain both wire ends \<open>-length/2\<close> and \<open>+length/2\<close>, the voltage antinodes
  contain both wire ends, and the current antinodes contain 0 when the feed position is
  0.5.
\<close>

theorem ends_and_center_present:
  assumes "0 < length_m model" and "0 < waveNumber model"
  shows "- (length_m model / 2) \<in> set (nodes (current (calculateNodesAndAntinodes model)))
       \<and> length_m model / 2 \<in> set (nodes (current (calculateNodesAndAntinodes model)))
       \<and> - (length_m model / 2) \<in> set (antinodes (voltage (calculateNodesAndAntinodes model)))
       \<and> length_m model / 2 \<in> set (antinodes (voltage (calculateNodesAndAntinodes model)))
       \<and> (feedPosition model = 0.5 \<longrightarrow>
            0 \<in> set (antinodes (current (calculateNodesAndAntinodes model))))"
  by (simp add: calculateNodesAndAntinodes_def Let_def set_calculateCurrentNodes
      set_calculateVoltageAntinodes set_calculateCurrentAntinodes)

theorem ends_and_center_present_witness:
  "- (10.6 / 2) \<in> set (nodes (current (calculateNodesAndAntinodes
      \<lparr> length_m = 10.6, feedPosition = 0.5, waveNumber = 0.3, electricalLength = 0.502,
        wavelength = 21.1, impedance = \<lparr> resistance = 73.1, reactance = 2 \<rparr> \<rparr>)))
   \<and> 10.6 / 2 \<in> set (nodes (current (calculateNodesAndAntinodes
      \<lparr> length_m = 10.6, feedPosition = 0.5, waveNumber = 0.3, electricalLength = 0.502,
        wavelength = 21.1, impedance = \<lparr> resistance = 73.1, reactance = 2 \<rparr> \<rparr>)))
   \<and> - (10.6 / 2) \<in> set (antinodes (voltage (calculateNodesAndAntinodes
      \<lparr> length_m = 10.6, feedPosition = 0.5, waveNumber = 0.3, electricalLength = 0.502,
        wavelength = 21.1, impedance = \<lparr> resistance = 73.1, reactance = 2 \<rparr> \<rparr>)))
   \<and> 10.6 / 2 \<in> set (antinodes (voltage (calculateNodesAndAntinodes
      \<lparr> length_m = 10.6, feedPosition = 0.5, waveNumber = 0.3, electricalLength = 0.502,
        wavelength = 21.1, impedance = \<lparr> resistance = 73.1, reactance = 2 \<rparr> \<rparr>)))
   \<and> 0 \<in> set (antinodes (current (calculateNodesAndAntinodes
      \<lparr> length_m = 10.6, feedPosition = 0.5, waveNumber = 0.3, electricalLength = 0.502,
        wavelength = 21.1, impedance = \<lparr> resistance = 73.1, reactance = 2 \<rparr> \<rparr>)))"
  using ends_and_center_present [of
      "\<lparr> length_m = 10.6, feedPosition = 0.5, waveNumber = 0.3, electricalLength = 0.502,
        wavelength = 21.1, impedance = \<lparr> resistance = 73.1, reactance = 2 \<rparr> \<rparr>"]
  by simp

text \<open>
  Claim C7. For every model with positive length and positive wave number, the current
  antinodes contain the position the feed determines: 0 for a feed position of 0.5, the
  left end \<open>-length/2\<close> for 0, the right end \<open>+length/2\<close> for 1, and
  \<open>(feedPosition - 0.5) * length\<close> for every other feed position.
\<close>

theorem feed_antinode_present:
  assumes "0 < length_m model" and "0 < waveNumber model"
  shows "(feedPosition model = 0.5 \<longrightarrow>
            0 \<in> set (antinodes (current (calculateNodesAndAntinodes model))))
       \<and> (feedPosition model = 0 \<longrightarrow>
            - (length_m model / 2) \<in> set (antinodes (current (calculateNodesAndAntinodes model))))
       \<and> (feedPosition model = 1 \<longrightarrow>
            length_m model / 2 \<in> set (antinodes (current (calculateNodesAndAntinodes model))))
       \<and> (feedPosition model \<noteq> 0.5 \<and> feedPosition model \<noteq> 0 \<and> feedPosition model \<noteq> 1 \<longrightarrow>
            (feedPosition model - 0.5) * length_m model
              \<in> set (antinodes (current (calculateNodesAndAntinodes model))))"
  by (simp add: calculateNodesAndAntinodes_def Let_def set_calculateCurrentAntinodes)

theorem feed_antinode_present_witness:
  "0 \<in> set (antinodes (current (calculateNodesAndAntinodes
      \<lparr> length_m = 10, feedPosition = 0.5, waveNumber = 0.3, electricalLength = 0.5,
        wavelength = 21, impedance = \<lparr> resistance = 73.1, reactance = 2 \<rparr> \<rparr>)))
   \<and> - (10 / 2) \<in> set (antinodes (current (calculateNodesAndAntinodes
      \<lparr> length_m = 10, feedPosition = 0, waveNumber = 0.3, electricalLength = 0.5,
        wavelength = 21, impedance = \<lparr> resistance = 73.1, reactance = 2 \<rparr> \<rparr>)))
   \<and> 10 / 2 \<in> set (antinodes (current (calculateNodesAndAntinodes
      \<lparr> length_m = 10, feedPosition = 1, waveNumber = 0.3, electricalLength = 0.5,
        wavelength = 21, impedance = \<lparr> resistance = 73.1, reactance = 2 \<rparr> \<rparr>)))
   \<and> (0.25 - 0.5) * 10 \<in> set (antinodes (current (calculateNodesAndAntinodes
      \<lparr> length_m = 10, feedPosition = 0.25, waveNumber = 0.3, electricalLength = 0.5,
        wavelength = 21, impedance = \<lparr> resistance = 73.1, reactance = 2 \<rparr> \<rparr>)))"
  using
    feed_antinode_present [of
      "\<lparr> length_m = 10, feedPosition = 0.5, waveNumber = 0.3, electricalLength = 0.5,
        wavelength = 21, impedance = \<lparr> resistance = 73.1, reactance = 2 \<rparr> \<rparr>"]
    feed_antinode_present [of
      "\<lparr> length_m = 10, feedPosition = 0, waveNumber = 0.3, electricalLength = 0.5,
        wavelength = 21, impedance = \<lparr> resistance = 73.1, reactance = 2 \<rparr> \<rparr>"]
    feed_antinode_present [of
      "\<lparr> length_m = 10, feedPosition = 1, waveNumber = 0.3, electricalLength = 0.5,
        wavelength = 21, impedance = \<lparr> resistance = 73.1, reactance = 2 \<rparr> \<rparr>"]
    feed_antinode_present [of
      "\<lparr> length_m = 10, feedPosition = 0.25, waveNumber = 0.3, electricalLength = 0.5,
        wavelength = 21, impedance = \<lparr> resistance = 73.1, reactance = 2 \<rparr> \<rparr>"]
  by simp

text \<open>
  Claim C8. For every model with positive length and positive wave number, each of the
  four lists that \<open>calculateNodesAndAntinodes\<close> returns is strictly increasing: ascending
  and without a repeated position.
\<close>

theorem lists_strictly_increasing:
  assumes "0 < length_m model" and "0 < waveNumber model"
  shows "sorted_wrt (<) (nodes (current (calculateNodesAndAntinodes model)))
       \<and> sorted_wrt (<) (antinodes (current (calculateNodesAndAntinodes model)))
       \<and> sorted_wrt (<) (nodes (voltage (calculateNodesAndAntinodes model)))
       \<and> sorted_wrt (<) (antinodes (voltage (calculateNodesAndAntinodes model)))"
  by (simp add: calculateNodesAndAntinodes_def calculateCurrentNodes_def
      calculateCurrentAntinodes_def calculateVoltageNodes_def calculateVoltageAntinodes_def
      Let_def strictly_sorted_unique)

theorem lists_strictly_increasing_witness:
  "sorted_wrt (<) (nodes (current (calculateNodesAndAntinodes
      \<lparr> length_m = 10.6, feedPosition = 0.5, waveNumber = 0.3, electricalLength = 0.502,
        wavelength = 21.1, impedance = \<lparr> resistance = 73.1, reactance = 2 \<rparr> \<rparr>)))
   \<and> sorted_wrt (<) (antinodes (current (calculateNodesAndAntinodes
      \<lparr> length_m = 10.6, feedPosition = 0.5, waveNumber = 0.3, electricalLength = 0.502,
        wavelength = 21.1, impedance = \<lparr> resistance = 73.1, reactance = 2 \<rparr> \<rparr>)))
   \<and> sorted_wrt (<) (nodes (voltage (calculateNodesAndAntinodes
      \<lparr> length_m = 10.6, feedPosition = 0.5, waveNumber = 0.3, electricalLength = 0.502,
        wavelength = 21.1, impedance = \<lparr> resistance = 73.1, reactance = 2 \<rparr> \<rparr>)))
   \<and> sorted_wrt (<) (antinodes (voltage (calculateNodesAndAntinodes
      \<lparr> length_m = 10.6, feedPosition = 0.5, waveNumber = 0.3, electricalLength = 0.502,
        wavelength = 21.1, impedance = \<lparr> resistance = 73.1, reactance = 2 \<rparr> \<rparr>)))"
  using lists_strictly_increasing [of
      "\<lparr> length_m = 10.6, feedPosition = 0.5, waveNumber = 0.3, electricalLength = 0.502,
        wavelength = 21.1, impedance = \<lparr> resistance = 73.1, reactance = 2 \<rparr> \<rparr>"]
  by simp

section \<open>Resonance guidance\<close>

lemma not_resonant_reactance_ge:
  "\<not> PhysicsUtils_isResonant z \<Longrightarrow> 15 \<le> \<bar>reactance z\<bar>"
  by (simp add: PhysicsUtils_isResonant_iff)

text \<open>
  Claim C6 as stated fails: the length adjustment divides by the literal 377, not by the
  free-space impedance 376.730313668. For a reactance of 100 ohm against 50 ohm and a
  wavelength of 20 m the code returns \<open>200 / 377\<close>, which is not
  \<open>(100 / 376.730313668) * 20 * 0.1\<close>.
\<close>

theorem guidance_formula_counterexample:
  "\<not> PhysicsUtils_isResonant \<lparr> resistance = 50, reactance = 100 \<rparr>
   \<and> lengthAdjustment (getResonanceGuidance
        \<lparr> length_m = 10, feedPosition = 0.5, waveNumber = pi / 10, electricalLength = 0.5,
          wavelength = 20, impedance = \<lparr> resistance = 50, reactance = 100 \<rparr> \<rparr>)
       = Some (200 / 377)
   \<and> lengthAdjustment (getResonanceGuidance
        \<lparr> length_m = 10, feedPosition = 0.5, waveNumber = pi / 10, electricalLength = 0.5,
          wavelength = 20, impedance = \<lparr> resistance = 50, reactance = 100 \<rparr> \<rparr>)
       \<noteq> Some ((\<bar>100\<bar> / FREE_SPACE_IMPEDANCE) * 20 * 0.1)"
  by (simp add: getResonanceGuidance_def PhysicsUtils_isResonant_iff Let_def
      FREE_SPACE_IMPEDANCE_def)

text \<open>
  Claim C6, amended. When the impedance is resonant, \<open>getResonanceGuidance\<close> reports
  status \<open>'Resonant'\<close>, the well-matched guidance and no length adjustment (\<open>null\<close>).
  When it is not resonant and the reactance is below \<open>-15\<close>, the length adjustment is
  \<open>(|reactance| / 377) * wavelength * 0.1\<close> and the guidance is to lengthen: add that
  much wire, the target being the length plus the adjustment. When it is not resonant
  and the reactance is above \<open>15\<close>, the length adjustment is the same formula and the
  guidance is to shorten: remove that much wire, the target being the length minus the
  adjustment.
\<close>

theorem guidance_by_reactance_sign:
  "(PhysicsUtils_isResonant (impedance model) \<longrightarrow>
      status (getResonanceGuidance model) = ''Resonant''
      \<and> guidance (getResonanceGuidance model) = WellMatched
      \<and> lengthAdjustment (getResonanceGuidance model) = None)
   \<and> (\<not> PhysicsUtils_isResonant (impedance model) \<and> reactance (impedance model) < - 15 \<longrightarrow>
      lengthAdjustment (getResonanceGuidance model)
        = Some ((\<bar>reactance (impedance model)\<bar> / 377) * wavelength model * 0.1)
      \<and> guidance (getResonanceGuidance model)
        = TooShort ((\<bar>reactance (impedance model)\<bar> / 377) * wavelength model * 0.1)
            (length_m model + (\<bar>reactance (impedance model)\<bar> / 377) * wavelength model * 0.1))
   \<and> (\<not> PhysicsUtils_isResonant (impedance model) \<and> reactance (impedance model) > 15 \<longrightarrow>
      lengthAdjustment (getResonanceGuidance model)
        = Some ((\<bar>reactance (impedance model)\<bar> / 377) * wavelength model * 0.1)
      \<and> guidance (getResonanceGuidance model)
        = TooLong ((\<bar>reactance (impedance model)\<bar> / 377) * wavelength model * 0.1)
            (length_m model - (\<bar>reactance (impedance model)\<bar> / 377) * wavelength model * 0.1))"
  by (simp add: getResonanceGuidance_def Let_def)

theorem guidance_by_reactance_sign_witness:
  "status (getResonanceGuidance
      \<lparr> length_m = 10, feedPosition = 0.5, waveNumber = pi / 10, electricalLength = 0.5,
        wavelength = 20, impedance = \<lparr> resistance = 73, reactance = 2 \<rparr> \<rparr>) = ''Resonant''
   \<and> lengthAdjustment (getResonanceGuidance
      \<lparr> length_m = 10, feedPosition = 0.5, waveNumber = pi / 10, electricalLength = 0.5,
        wavelength = 20, impedance = \<lparr> resistance = 73, reactance = 2 \<rparr> \<rparr>) = None
   \<and> guidance (getResonanceGuidance
      \<lparr> length_m = 10, feedPosition = 0.5, waveNumber = pi / 10, electricalLength = 0.5,
        wavelength = 20, impedance = \<lparr> resistance = 50, reactance = - 377 \<rparr> \<rparr>) = TooShort 2 12
   \<and> guidance (getResonanceGuidance
      \<lparr> length_m = 10, feedPosition = 0.5, waveNumber = pi / 10, electricalLength = 0.5,
        wavelength = 20, impedance = \<lparr> resistance = 50, reactance = 377 \<rparr> \<rparr>) = TooLong 2 8"
  using
    guidance_by_reactance_sign [of
      "\<lparr> length_m = 10, feedPosition = 0.5, waveNumber = pi / 10, electricalLength = 0.5,
        wavelength = 20, impedance = \<lparr> resistance = 73, reactance = 2 \<rparr> \<rparr>"]
    guidance_by_reactance_sign [of
      "\<lparr> length_m = 10, feedPosition = 0.5, waveNumber = pi / 10, electricalLength = 0.5,
        wavelength = 20, impedance = \<lparr> resistance = 50, reactance = - 377 \<rparr> \<rparr>"]
    guidance_by_reactance_sign [of
      "\<lparr> length_m = 10, feedPosition = 0.5, waveNumber = pi / 10, electricalLength = 0.5,
        wavelength = 20, impedance = \<lparr> resistance = 50, reactance = 377 \<rparr> \<rparr>"]
  by (simp add: PhysicsUtils_isResonant_iff)

text \<open>
  Claim C9. Whenever the impedance is not resonant, \<open>|reactance| \<ge> 15\<close>. So the
  \<open>'Nearly Resonant'\<close> fallback, which returns a length adjustment of 0, is reached only
  when \<open>|reactance|\<close> is exactly 15; and for every non-resonant impedance with
  \<open>|reactance| \<noteq> 15\<close>, on a model with positive wavelength, the guidance prescribes a
  strictly positive length adjustment together with a definite direction, lengthen or
  shorten.
\<close>

theorem nearly_resonant_only_at_threshold:
  "(\<not> PhysicsUtils_isResonant (impedance model) \<longrightarrow> 15 \<le> \<bar>reactance (impedance model)\<bar>)
   \<and> (\<not> PhysicsUtils_isResonant (impedance model)
        \<and> guidance (getResonanceGuidance model) = NearlyResonant \<longrightarrow>
          \<bar>reactance (impedance model)\<bar> = 15
          \<and> lengthAdjustment (getResonanceGuidance model) = Some 0)
   \<and> (\<not> PhysicsUtils_isResonant (impedance model) \<and> \<bar>reactance (impedance model)\<bar> \<noteq> 15
        \<and> 0 < wavelength model \<longrightarrow>
          (\<exists>a t. 0 < a \<and> lengthAdjustment (getResonanceGuidance model) = Some a
             \<and> (guidance (getResonanceGuidance model) = TooShort a t
                  \<or> guidance (getResonanceGuidance model) = TooLong a t)))"
proof (intro conjI impI)
  assume "\<not> PhysicsUtils_isResonant (impedance model)"
  then show "15 \<le> \<bar>reactance (impedance model)\<bar>"
    by (rule not_resonant_reactance_ge)
next
  assume a: "\<not> PhysicsUtils_isResonant (impedance model)
    \<and> guidance (getResonanceGuidance model) = NearlyResonant"
  then have "15 \<le> \<bar>reactance (impedance model)\<bar>"
    by (simp add: not_resonant_reactance_ge)
  with a show "\<bar>reactance (impedance model)\<bar> = 15"
    by (auto simp: getResonanceGuidance_def Let_def split: if_splits)
  from a show "lengthAdjustment (getResonanceGuidance model) = Some 0"
    by (auto simp: getResonanceGuidance_def Let_def split: if_splits)
next
  assume a: "\<not> PhysicsUtils_isResonant (impedance model)
    \<and> \<bar>reactance (impedance model)\<bar> \<noteq> 15 \<and> 0 < wavelength model"
  then have "15 \<le> \<bar>reactance (impedance model)\<bar>"
    by (simp add: not_resonant_reactance_ge)
  with a consider "reactance (impedance model) < - 15" | "15 < reactance (impedance model)"
    by linarith
  then show "\<exists>a t. 0 < a \<and> lengthAdjustment (getResonanceGuidance model) = Some a
             \<and> (guidance (getResonanceGuidance model) = TooShort a t
                  \<or> guidance (getResonanceGuidance model) = TooLong a t)"
  proof cases
    case 1
    let ?a = "\<bar>reactance (impedance model)\<bar> / 377 * wavelength model * 0.1"
    from 1 a have "0 < ?a" by (simp add: mult_neg_pos)
    moreover from 1 a have "lengthAdjustment (getResonanceGuidance model) = Some ?a"
      by (simp add: getResonanceGuidance_def Let_def)
    moreover from 1 a have
      "guidance (getResonanceGuidance model) = TooShort ?a (length_m model + ?a)"
      by (simp add: getResonanceGuidance_def Let_def)
    ultimately show ?thesis by blast
  next
    case 2
    let ?a = "reactance (impedance model) / 377 * wavelength model * 0.1"
    from 2 a have "0 < ?a" by (simp add: mult_pos_pos)
    moreover from 2 a have "lengthAdjustment (getResonanceGuidance model) = Some ?a"
      by (simp add: getResonanceGuidance_def Let_def)
    moreover from 2 a have
      "guidance (getResonanceGuidance model) = TooLong ?a (length_m model - ?a)"
      by (simp add: getResonanceGuidance_def Let_def)
    ultimately show ?thesis by blast
  qed
qed

theorem nearly_resonant_only_at_threshold_witness:
  "guidance (getResonanceGuidance
      \<lparr> length_m = 10, feedPosition = 0.5, waveNumber = pi / 10, electricalLength = 0.5,
        wavelength = 20, impedance = \<lparr> resistance = 50, reactance = 15 \<rparr> \<rparr>) = NearlyResonant
   \<and> lengthAdjustment (getResonanceGuidance
      \<lparr> length_m = 10, feedPosition = 0.5, waveNumber = pi / 10, electricalLength = 0.5,
        wavelength = 20, impedance = \<lparr> resistance = 50, reactance = 15 \<rparr> \<rparr>) = Some 0
   \<and> (\<exists>a t. 0 < a
        \<and> lengthAdjustment (getResonanceGuidance
            \<lparr> length_m = 10, feedPosition = 0.5, waveNumber = pi / 10, electricalLength = 0.5,
              wavelength = 20, impedance = \<lparr> resistance = 50, reactance = 100 \<rparr> \<rparr>) = Some a
        \<and> (guidance (getResonanceGuidance
            \<lparr> length_m = 10, feedPosition = 0.5, waveNumber = pi / 10, electricalLength = 0.5,
              wavelength = 20, impedance = \<lparr> resistance = 50, reactance = 100 \<rparr> \<rparr>) = TooShort a t
          \<or> guidance (getResonanceGuidance
            \<lparr> length_m = 10, feedPosition = 0.5, waveNumber = pi / 10, electricalLength = 0.5,
              wavelength = 20, impedance = \<lparr> resistance = 50, reactance = 100 \<rparr> \<rparr>) = TooLong a t))"
proof -
  let ?m15 = "\<lparr> length_m = 10, feedPosition = 0.5, waveNumber = pi / 10, electricalLength = 0.5,
        wavelength = 20, impedance = \<lparr> resistance = 50, reactance = 15 \<rparr> \<rparr>"
  let ?m100 = "\<lparr> length_m = 10, feedPosition = 0.5, waveNumber = pi / 10, electricalLength = 0.5,
        wavelength = 20, impedance = \<lparr> resistance = 50, reactance = 100 \<rparr> \<rparr>"
  have g: "guidance (getResonanceGuidance ?m15) = NearlyResonant"
    by (simp add: getResonanceGuidance_def Let_def PhysicsUtils_isResonant_iff)
  have n15: "\<not> PhysicsUtils_isResonant (impedance ?m15)"
    by (simp add: PhysicsUtils_isResonant_iff)
  have n100: "\<not> PhysicsUtils_isResonant (impedance ?m100)"
    by (simp add: PhysicsUtils_isResonant_iff)
  show ?thesis
    using nearly_resonant_only_at_threshold [of ?m15] nearly_resonant_only_at_threshold [of ?m100]
      g n15 n100
    by simp
qed

section \<open>The two node calculators compared\<close>

lemma position_below_half_length:
  fixes x k len :: real
  assumes k: "0 < k" and x: "0 \<le> x" and g: "x * pi / k < len / 2 - 1 / 10"
  shows "2 * x * pi < len * k"
proof -
  have "x * pi / k < len / 2" using g by simp
  then have "x * pi < len / 2 * k" using k by (simp add: pos_divide_less_eq)
  then show ?thesis by simp
qed

lemma index_below_MAX_HARMONICS:
  fixes x k len :: real
  assumes k: "0 < k" and x: "0 \<le> x" and g: "x * pi / k < len / 2 - 1 / 10"
    and short: "len * k \<le> 16 * pi"
  shows "x < 8"
proof -
  have "2 * x * pi < 16 * pi"
    using position_below_half_length [OF k x g] short by linarith
  then have "(2 * x) * pi < 16 * pi" by simp
  then have "2 * x < 16"
    by (simp only: mult_less_cancel_right_pos [OF pi_gt_zero])
  then show ?thesis by simp
qed

lemma index_below_maxNodes:
  fixes k len :: real
  assumes k: "0 < k" and g: "real n * pi / k < len / 2 - 1 / 10"
  shows "n < nat \<lceil>len / (2 * pi / k) * 4\<rceil>"
proof -
  have *: "2 * real n * pi < len * k"
    using position_below_half_length [OF k _ g] by simp
  have eq: "len / (2 * pi / k) * 4 = 2 * (len * k) / pi" by (simp add: mult.commute)
  have "real n < 2 * (len * k) / pi"
  proof -
    have "0 \<le> 2 * real n * pi" by simp
    with * have "0 < len * k" by linarith
    with * \<open>0 \<le> 2 * real n * pi\<close> have "real n * pi < 2 * (len * k)"
      by linarith
    then show ?thesis by (simp add: pos_less_divide_eq)
  qed
  then have "real n < len / (2 * pi / k) * 4" by (simp only: eq)
  then have "int n < \<lceil>len / (2 * pi / k) * 4\<rceil>"
    by (simp only: less_ceiling_iff of_int_of_nat_eq)
  then show ?thesis by simp
qed

lemma index_half_below_maxNodes:
  fixes k len :: real
  assumes k: "0 < k" and g: "(real n + 0.5) * pi / k < len / 2 - 1 / 10"
  shows "n < nat \<lceil>len / (2 * pi / k) * 4\<rceil>"
proof -
  have "real n * pi / k \<le> (real n + 0.5) * pi / k"
    using k by (simp add: divide_le_cancel)
  with g have "real n * pi / k < len / 2 - 1 / 10" by linarith
  then show ?thesis by (rule index_below_maxNodes [OF k])
qed

lemma edgeBuffer_long_wave:
  fixes k :: real
  assumes "0 < k" and "k \<le> pi"
  shows "min 0.1 (2 * pi / k * 0.05) = 0.1"
proof -
  have "1 \<le> pi / k" using assms by (simp add: pos_le_divide_eq)
  then show ?thesis by simp
qed

lemma centerBuffer_below_first_position:
  fixes k :: real
  assumes k: "0 < k"
  shows "(real n + 0.5) * pi / k > max 0.1 (2 * pi / k * 0.05) \<longleftrightarrow> (real n + 0.5) * pi / k > 0.1"
proof -
  have "0 < pi / k" using k by simp
  have "2 * pi / k * 0.05 < (real n + 0.5) * pi / k"
  proof -
    have "2 * pi / k * 0.05 = 0.1 * (pi / k)" by simp
    also have "\<dots> < (real n + 0.5) * (pi / k)"
      using \<open>0 < pi / k\<close> by (intro mult_strict_right_mono) simp_all
    finally show ?thesis by simp
  qed
  then show ?thesis by auto
qed

lemma set_for_loop_bounds_irrelevant:
  assumes "\<And>n. g (f n) \<longleftrightarrow> g' (f n)"
    and "\<And>n. g (f n) \<Longrightarrow> n < a"
    and "\<And>n. g (f n) \<Longrightarrow> n < b"
  shows "set (for_loop lo a (\<lambda>n. push_pair g (f n)) acc)
       = set (for_loop lo b (\<lambda>n. push_pair g' (f n)) acc)"
  unfolding set_for_loop_push_pair using assms by blast

lemma currentNodes_agree:
  assumes k: "0 < k" and long: "k \<le> pi" and short: "len * k \<le> 16 * pi"
  shows "calculateCurrentNodes len k fp = vis_calculateCurrentNodes len k"
proof -
  have "set (for_loop 0 MAX_HARMONICS
          (\<lambda>n. push_pair (\<lambda>p. p < len / 2 - EDGE_BUFFER) (((real n + 0.5) * pi) / k))
          [- (len / 2), len / 2])
      = set (for_loop 0 (nat \<lceil>len / (2 * pi / k) * 4\<rceil>)
          (\<lambda>n. push_pair (\<lambda>p. p < len / 2 - min 0.1 (2 * pi / k * 0.05))
                  (((real n + 0.5) * pi) / k))
          [- (len / 2), len / 2])"
  proof (rule set_for_loop_bounds_irrelevant)
    fix n
    show "((real n + 0.5) * pi) / k < len / 2 - EDGE_BUFFER \<longleftrightarrow>
          ((real n + 0.5) * pi) / k < len / 2 - min 0.1 (2 * pi / k * 0.05)"
      by (simp only: edgeBuffer_long_wave [OF k long] EDGE_BUFFER_def)
    assume g: "((real n + 0.5) * pi) / k < len / 2 - EDGE_BUFFER"
    then have g': "(real n + 0.5) * pi / k < len / 2 - 1 / 10"
      by (simp add: EDGE_BUFFER_def)
    have "real n + 0.5 < 8"
      by (rule index_below_MAX_HARMONICS [OF k _ g' short]) simp
    then show "n < MAX_HARMONICS" by (simp add: MAX_HARMONICS_def)
    show "n < nat \<lceil>len / (2 * pi / k) * 4\<rceil>"
      by (rule index_half_below_maxNodes [OF k g'])
  qed
  then show ?thesis
    unfolding calculateCurrentNodes_def vis_calculateCurrentNodes_def Let_def if_cancel
    by (rule sorted_unique_cong)
qed

lemma internal_antinodes_agree:
  assumes k: "0 < k" and long: "k \<le> pi" and short: "len * k \<le> 16 * pi"
  shows "set (for_loop 1 MAX_HARMONICS
          (\<lambda>n. push_pair (\<lambda>p. p < len / 2 - EDGE_BUFFER) ((real n * pi) / k)) acc)
      = set (for_loop 1 (nat \<lceil>len / (2 * pi / k) * 4\<rceil>)
          (\<lambda>n. push_pair (\<lambda>p. p < len / 2 - min 0.1 (2 * pi / k * 0.05))
                  ((real n * pi) / k)) acc)"
proof (rule set_for_loop_bounds_irrelevant)
  fix n
  show "(real n * pi) / k < len / 2 - EDGE_BUFFER \<longleftrightarrow>
        (real n * pi) / k < len / 2 - min 0.1 (2 * pi / k * 0.05)"
    by (simp only: edgeBuffer_long_wave [OF k long] EDGE_BUFFER_def)
  assume g: "(real n * pi) / k < len / 2 - EDGE_BUFFER"
  then have g': "real n * pi / k < len / 2 - 1 / 10"
    by (simp add: EDGE_BUFFER_def)
  have "real n < 8"
    by (rule index_below_MAX_HARMONICS [OF k _ g' short]) simp
  then show "n < MAX_HARMONICS" by (simp add: MAX_HARMONICS_def)
  show "n < nat \<lceil>len / (2 * pi / k) * 4\<rceil>"
    by (rule index_below_maxNodes [OF k g'])
qed

lemma currentAntinodes_agree:
  assumes k: "0 < k" and long: "k \<le> pi" and short: "len * k \<le> 16 * pi"
  shows "calculateCurrentAntinodes len k 0.5 = vis_calculateCurrentAntinodes len k"
  unfolding calculateCurrentAntinodes_def vis_calculateCurrentAntinodes_def Let_def if_True
    refl [of "0.5::real", THEN eqTrueI]
  by (rule sorted_unique_cong) (rule internal_antinodes_agree [OF assms])

lemma voltageNodes_agree:
  assumes k: "0 < k" and long: "k \<le> pi" and short: "len * k \<le> 16 * pi"
  shows "calculateVoltageNodes len k 0.5 = vis_calculateVoltageNodes len k"
  unfolding calculateVoltageNodes_def vis_calculateVoltageNodes_def Let_def if_True
    refl [of "0.5::real", THEN eqTrueI]
  by (rule sorted_unique_cong) (rule internal_antinodes_agree [OF assms])

lemma voltageAntinodes_agree:
  assumes k: "0 < k" and long: "k \<le> pi" and short: "len * k \<le> 16 * pi"
  shows "calculateVoltageAntinodes len k fp = vis_calculateVoltageAntinodes len k"
proof -
  have "set (for_loop 0 MAX_HARMONICS
          (\<lambda>n. push_pair (\<lambda>p. p < len / 2 - EDGE_BUFFER \<and> p > EDGE_BUFFER)
                  (((real n + 0.5) * pi) / k))
          [- (len / 2), len / 2])
      = set (for_loop 0 (nat \<lceil>len / (2 * pi / k) * 4\<rceil>)
          (\<lambda>n. push_pair (\<lambda>p. p < len / 2 - min 0.1 (2 * pi / k * 0.05)
                               \<and> p > max 0.1 (2 * pi / k * 0.05))
                  (((real n + 0.5) * pi) / k))
          [- (len / 2), len / 2])"
  proof (rule set_for_loop_bounds_irrelevant)
    fix n
    show "(((real n + 0.5) * pi) / k < len / 2 - EDGE_BUFFER
            \<and> ((real n + 0.5) * pi) / k > EDGE_BUFFER) \<longleftrightarrow>
          (((real n + 0.5) * pi) / k < len / 2 - min 0.1 (2 * pi / k * 0.05)
            \<and> ((real n + 0.5) * pi) / k > max 0.1 (2 * pi / k * 0.05))"
      by (simp only: edgeBuffer_long_wave [OF k long] EDGE_BUFFER_def
          centerBuffer_below_first_position [OF k])
    assume "((real n + 0.5) * pi) / k < len / 2 - EDGE_BUFFER
            \<and> ((real n + 0.5) * pi) / k > EDGE_BUFFER"
    then have g': "(real n + 0.5) * pi / k < len / 2 - 1 / 10"
      by (simp add: EDGE_BUFFER_def)
    have "real n + 0.5 < 8"
      by (rule index_below_MAX_HARMONICS [OF k _ g' short]) simp
    then show "n < MAX_HARMONICS" by (simp add: MAX_HARMONICS_def)
    show "n < nat \<lceil>len / (2 * pi / k) * 4\<rceil>"
      by (rule index_half_below_maxNodes [OF k g'])
  qed
  then show ?thesis
    unfolding calculateVoltageAntinodes_def vis_calculateVoltageAntinodes_def Let_def
    by (rule sorted_unique_cong)
qed

text \<open>
  Outside the centre-fed, long-wave, short-wire range the two classes do differ: the
  library stops at 8 harmonics and keeps a fixed edge buffer of 0.1 m, the component
  scales both with the wire.
\<close>

lemma set_vis_calculateCurrentNodes:
  "set (vis_calculateCurrentNodes len k) =
     {- (len / 2), len / 2} \<union>
     {p. \<exists>n. 0 \<le> n \<and> n < nat \<lceil>len / (2 * pi / k) * 4\<rceil>
            \<and> ((real n + 0.5) * pi) / k < len / 2 - min 0.1 (2 * pi / k * 0.05)
            \<and> (p = ((real n + 0.5) * pi) / k \<or> p = - (((real n + 0.5) * pi) / k))}"
  by (simp add: vis_calculateCurrentNodes_def Let_def set_sorted_unique set_for_loop_push_pair)

lemma harmonic_cap_differs_on_long_wire:
  "8.5 \<in> set (vis_calculateCurrentNodes 18 pi) \<and> 8.5 \<notin> set (calculateCurrentNodes 18 pi 0.5)"
proof
  show "8.5 \<in> set (vis_calculateCurrentNodes 18 pi)"
    unfolding set_vis_calculateCurrentNodes
    by (rule UnI2, rule CollectI, rule exI [of _ 8]) simp
  show "8.5 \<notin> set (calculateCurrentNodes 18 pi 0.5)"
  proof -
    have "real n + 0.5 \<noteq> 8.5" if "n < 8" for n using that by simp
    moreover have "- (real n + 0.5) \<noteq> 8.5" for n
    proof -
      have "(0::real) \<le> real n" by simp
      then have "- (real n + 0.5) < 8.5" by linarith
      then show ?thesis by (rule less_imp_neq)
    qed
    ultimately show ?thesis
      unfolding set_calculateCurrentNodes by (auto simp: MAX_HARMONICS_def)
  qed
qed

lemma edge_buffer_differs_on_short_wave:
  "0.25 \<in> set (vis_calculateCurrentNodes 0.62 (2 * pi))
   \<and> 0.25 \<notin> set (calculateCurrentNodes 0.62 (2 * pi) 0.5)"
proof
  show "0.25 \<in> set (vis_calculateCurrentNodes 0.62 (2 * pi))"
    unfolding set_vis_calculateCurrentNodes
    by (rule UnI2, rule CollectI, rule exI [of _ 0]) simp
  show "0.25 \<notin> set (calculateCurrentNodes 0.62 (2 * pi) 0.5)"
  proof -
    have "\<not> (real n + 0.5) * pi / (2 * pi) < 0.62 / 2 - 0.1" for n
    proof -
      have "(real n + 0.5) * pi / (2 * pi) = (real n + 0.5) / 2" by simp
      then show ?thesis by simp
    qed
    then show ?thesis
      unfolding set_calculateCurrentNodes by (simp add: EDGE_BUFFER_def)
  qed
qed

text \<open>
  Claim C10 as stated fails: the class of the visualization component ignores the feed
  position and always starts the current antinodes with the centre. For an end-fed wire
  of 10 m at a wavelength of 20 m the library returns the fed end \<open>[-5]\<close> and the
  component returns \<open>[0]\<close>.
\<close>

theorem implementations_differ_counterexample:
  "antinodes (current (calculateNodesAndAntinodes
      \<lparr> length_m = 10, feedPosition = 0, waveNumber = pi / 10, electricalLength = 0.5,
        wavelength = 20, impedance = \<lparr> resistance = 2500, reactance = 0 \<rparr> \<rparr>)) = [- 5]
   \<and> antinodes (current (vis_calculateNodesAndAntinodes
      \<lparr> length_m = 10, feedPosition = 0, waveNumber = pi / 10, electricalLength = 0.5,
        wavelength = 20, impedance = \<lparr> resistance = 2500, reactance = 0 \<rparr> \<rparr>)) = [0]
   \<and> antinodes (current (calculateNodesAndAntinodes
      \<lparr> length_m = 10, feedPosition = 0, waveNumber = pi / 10, electricalLength = 0.5,
        wavelength = 20, impedance = \<lparr> resistance = 2500, reactance = 0 \<rparr> \<rparr>))
     \<noteq> antinodes (current (vis_calculateNodesAndAntinodes
      \<lparr> length_m = 10, feedPosition = 0, waveNumber = pi / 10, electricalLength = 0.5,
        wavelength = 20, impedance = \<lparr> resistance = 2500, reactance = 0 \<rparr> \<rparr>))"
proof -
  have lib: "calculateCurrentAntinodes 10 (pi / 10) 0 = [- 5]"
    unfolding calculateCurrentAntinodes_def Let_def
    by (rule sorted_unique_single)
      (auto simp: set_for_loop_push_pair EDGE_BUFFER_def MAX_HARMONICS_def)
  have vis: "vis_calculateCurrentAntinodes 10 (pi / 10) = [0]"
    unfolding vis_calculateCurrentAntinodes_def Let_def
    by (rule sorted_unique_single) (auto simp: set_for_loop_push_pair)
  show ?thesis
    by (simp add: calculateNodesAndAntinodes_def vis_calculateNodesAndAntinodes_def Let_def
        lib vis)
qed

text \<open>
  Claim C10, amended. For every centre-fed model (feed position 0.5) with positive
  length, a wave number in \<open>(0, \<pi>]\<close> (a wavelength of at least 2 m) and
  \<open>length * waveNumber \<le> 16\<pi>\<close> (at most 8 wavelengths of wire), the two classes return
  the same current nodes, current antinodes, voltage nodes and voltage antinodes and the
  same harmonic number.
\<close>

theorem implementations_agree_center_fed:
  assumes "feedPosition model = 0.5"
    and "0 < length_m model"
    and "0 < waveNumber model"
    and "waveNumber model \<le> pi"
    and "length_m model * waveNumber model \<le> 16 * pi"
  shows "nodes (current (calculateNodesAndAntinodes model))
           = nodes (current (vis_calculateNodesAndAntinodes model))
       \<and> antinodes (current (calculateNodesAndAntinodes model))
           = antinodes (current (vis_calculateNodesAndAntinodes model))
       \<and> nodes (voltage (calculateNodesAndAntinodes model))
           = nodes (voltage (vis_calculateNodesAndAntinodes model))
       \<and> antinodes (voltage (calculateNodesAndAntinodes model))
           = antinodes (voltage (vis_calculateNodesAndAntinodes model))
       \<and> harmonic (calculateNodesAndAntinodes model)
           = harmonic (vis_calculateNodesAndAntinodes model)"
proof -
  note k = assms(3) and long = assms(4) and short = assms(5)
  have cn: "calculateCurrentNodes (length_m model) (waveNumber model) (feedPosition model)
      = vis_calculateCurrentNodes (length_m model) (waveNumber model)"
    by (rule currentNodes_agree [OF k long short])
  have ca: "calculateCurrentAntinodes (length_m model) (waveNumber model) (feedPosition model)
      = vis_calculateCurrentAntinodes (length_m model) (waveNumber model)"
    unfolding assms(1) by (rule currentAntinodes_agree [OF k long short])
  have vn: "calculateVoltageNodes (length_m model) (waveNumber model) (feedPosition model)
      = vis_calculateVoltageNodes (length_m model) (waveNumber model)"
    unfolding assms(1) by (rule voltageNodes_agree [OF k long short])
  have va: "calculateVoltageAntinodes (length_m model) (waveNumber model) (feedPosition model)
      = vis_calculateVoltageAntinodes (length_m model) (waveNumber model)"
    by (rule voltageAntinodes_agree [OF k long short])
  show ?thesis
    by (simp add: calculateNodesAndAntinodes_def vis_calculateNodesAndAntinodes_def Let_def
        cn ca vn va vis_getHarmonicNumber_eq)
qed

theorem implementations_agree_center_fed_witness:
  "nodes (current (calculateNodesAndAntinodes
      \<lparr> length_m = 10, feedPosition = 0.5, waveNumber = pi / 10, electricalLength = 0.5,
        wavelength = 20, impedance = \<lparr> resistance = 73.1, reactance = 0 \<rparr> \<rparr>))
    = nodes (current (vis_calculateNodesAndAntinodes
      \<lparr> length_m = 10, feedPosition = 0.5, waveNumber = pi / 10, electricalLength = 0.5,
        wavelength = 20, impedance = \<lparr> resistance = 73.1, reactance = 0 \<rparr> \<rparr>))
   \<and> antinodes (current (calculateNodesAndAntinodes
      \<lparr> length_m = 10, feedPosition = 0.5, waveNumber = pi / 10, electricalLength = 0.5,
        wavelength = 20, impedance = \<lparr> resistance = 73.1, reactance = 0 \<rparr> \<rparr>))
    = antinodes (current (vis_calculateNodesAndAntinodes
      \<lparr> length_m = 10, feedPosition = 0.5, waveNumber = pi / 10, electricalLength = 0.5,
        wavelength = 20, impedance = \<lparr> resistance = 73.1, reactance = 0 \<rparr> \<rparr>))
   \<and> nodes (voltage (calculateNodesAndAntinodes
      \<lparr> length_m = 10, feedPosition = 0.5, waveNumber = pi / 10, electricalLength = 0.5,
        wavelength = 20, impedance = \<lparr> resistance = 73.1, reactance = 0 \<rparr> \<rparr>))
    = nodes (voltage (vis_calculateNodesAndAntinodes
      \<lparr> length_m = 10, feedPosition = 0.5, waveNumber = pi / 10, electricalLength = 0.5,
        wavelength = 20, impedance = \<lparr> resistance = 73.1, reactance = 0 \<rparr> \<rparr>))
   \<and> antinodes (voltage (calculateNodesAndAntinodes
      \<lparr> length_m = 10, feedPosition = 0.5, waveNumber = pi / 10, electricalLength = 0.5,
        wavelength = 20, impedance = \<lparr> resistance = 73.1, reactance = 0 \<rparr> \<rparr>))
    = antinodes (voltage (vis_calculateNodesAndAntinodes
      \<lparr> length_m = 10, feedPosition = 0.5, waveNumber = pi / 10, electricalLength = 0.5,
        wavelength = 20, impedance = \<lparr> resistance = 73.1, reactance = 0 \<rparr> \<rparr>))
   \<and> harmonic (calculateNodesAndAntinodes
      \<lparr> length_m = 10, feedPosition = 0.5, waveNumber = pi / 10, electricalLength = 0.5,
        wavelength = 20, impedance = \<lparr> resistance = 73.1, reactance = 0 \<rparr> \<rparr>)
    = harmonic (vis_calculateNodesAndAntinodes
      \<lparr> length_m = 10, feedPosition = 0.5, waveNumber = pi / 10, electricalLength = 0.5,
        wavelength = 20, impedance = \<lparr> resistance = 73.1, reactance = 0 \<rparr> \<rparr>)"
proof -
  have "pi / 10 \<le> pi" using pi_gt_zero by simp
  then show ?thesis
    using implementations_agree_center_fed [of
      "\<lparr> length_m = 10, feedPosition = 0.5, waveNumber = pi / 10, electricalLength = 0.5,
        wavelength = 20, impedance = \<lparr> resistance = 73.1, reactance = 0 \<rparr> \<rparr>"]
    by simp
qed

section \<open>Impedance limits\<close>

lemma computeImpedance_within_limits:
  "0.1 \<le> resistance (computeImpedance cs len frequency fp wireDiameter)
   \<and> resistance (computeImpedance cs len frequency fp wireDiameter) \<le> 50000
   \<and> - 5000 \<le> reactance (computeImpedance cs len frequency fp wireDiameter)
   \<and> reactance (computeImpedance cs len frequency fp wireDiameter) \<le> 5000"
  by (simp add: computeImpedance_def Let_def clamp_def MIN_RESISTANCE_def MAX_RESISTANCE_def
      MIN_REACTANCE_def MAX_REACTANCE_def)

lemma reachable_cache_within_limits:
  "reachable_cache cs cache \<Longrightarrow> cache key = Some z \<Longrightarrow>
     0.1 \<le> resistance z \<and> resistance z \<le> 50000 \<and> - 5000 \<le> reactance z \<and> reactance z \<le> 5000"
proof (induction arbitrary: key z rule: reachable_cache.induct)
  case fresh
  then show ?case by simp
next
  case (call cache len frequency fp wireDiameter)
  show ?case
  proof (cases "cache (cacheKey len frequency fp wireDiameter)")
    case None
    with call.prems have
      "z = computeImpedance cs len frequency fp wireDiameter \<or> cache key = Some z"
      by (auto simp: calculateImpedance_def Let_def split: if_splits)
    then show ?thesis
      using call.IH computeImpedance_within_limits by blast
  next
    case (Some z')
    with call.prems have "cache key = Some z"
      by (simp add: calculateImpedance_def Let_def)
    then show ?thesis by (rule call.IH)
  qed
qed

text \<open>
  Claim C2. For every valid input (positive length, positive frequency, feed position
  in \<open>[0, 1]\<close>, positive wire diameter) and every cache a session can hold,
  \<open>calculateImpedance\<close> returns an impedance whose resistance lies in \<open>[0.1, 50000]\<close>
  and whose reactance lies in \<open>[-5000, 5000]\<close>.
\<close>

theorem calculateImpedance_within_limits:
  assumes "reachable_cache cs cache"
    and "0 < len" and "0 < frequency" and "0 \<le> fp" and "fp \<le> 1" and "0 < wireDiameter"
  shows "0.1 \<le> resistance (fst (calculateImpedance cs cache len frequency fp wireDiameter))
       \<and> resistance (fst (calculateImpedance cs cache len frequency fp wireDiameter)) \<le> 50000
       \<and> - 5000 \<le> reactance (fst (calculateImpedance cs cache len frequency fp wireDiameter))
       \<and> reactance (fst (calculateImpedance cs cache len frequency fp wireDiameter)) \<le> 5000"
proof (cases "cache (cacheKey len frequency fp wireDiameter)")
  case None
  then have "fst (calculateImpedance cs cache len frequency fp wireDiameter)
      = computeImpedance cs len frequency fp wireDiameter"
    by (simp add: calculateImpedance_def Let_def)
  then show ?thesis by (simp only: computeImpedance_within_limits)
next
  case (Some z)
  then have "fst (calculateImpedance cs cache len frequency fp wireDiameter) = z"
    by (simp add: calculateImpedance_def Let_def)
  then show ?thesis
    using reachable_cache_within_limits [OF assms(1) Some] by simp
qed

theorem calculateImpedance_within_limits_witness:
  "0.1 \<le> resistance (fst (calculateImpedance
      \<lparr> halfWaveCorrection = (\<lambda>r. 0), wireCorrection = (\<lambda>r. 0),
        quarterWaveCorrection = (\<lambda>r. 0), endFedNullReactance = 0 \<rparr>
      Map.empty 10.6 14.2 0.5 2))
   \<and> resistance (fst (calculateImpedance
      \<lparr> halfWaveCorrection = (\<lambda>r. 0), wireCorrection = (\<lambda>r. 0),
        quarterWaveCorrection = (\<lambda>r. 0), endFedNullReactance = 0 \<rparr>
      Map.empty 10.6 14.2 0.5 2)) \<le> 50000
   \<and> - 5000 \<le> reactance (fst (calculateImpedance
      \<lparr> halfWaveCorrection = (\<lambda>r. 0), wireCorrection = (\<lambda>r. 0),
        quarterWaveCorrection = (\<lambda>r. 0), endFedNullReactance = 0 \<rparr>
      Map.empty 10.6 14.2 0.5 2))
   \<and> reactance (fst (calculateImpedance
      \<lparr> halfWaveCorrection = (\<lambda>r. 0), wireCorrection = (\<lambda>r. 0),
        quarterWaveCorrection = (\<lambda>r. 0), endFedNullReactance = 0 \<rparr>
      Map.empty 10.6 14.2 0.5 2)) \<le> 5000"
  using calculateImpedance_within_limits [OF reachable_cache.fresh, of "10.6" "14.2" "0.5" 2
      "\<lparr> halfWaveCorrection = (\<lambda>r. 0), wireCorrection = (\<lambda>r. 0),
        quarterWaveCorrection = (\<lambda>r. 0), endFedNullReactance = 0 \<rparr>"]
  by simp

end
